theory Spec2Isabelle
  imports Main
begin

section \<open>The URL dispatch table (config/urls.py)\<close>

text \<open>
  The source builds \<^verbatim>\<open>urlpatterns\<close> as a list of \<^verbatim>\<open>path(route, target, name=...)\<close>
  entries. A target is either a view (\<^verbatim>\<open>X.as_view(...)\<close>) or an included route module:
  \<^verbatim>\<open>include("apps.accounts.urls")\<close>, and also \<^verbatim>\<open>admin.site.urls\<close>, which is the
  tuple form that \<^verbatim>\<open>path\<close> treats as an include.
\<close>

datatype view_class = SpectacularAPIView | SpectacularSwaggerView | SpectacularRedocView

datatype route_module =
    admin_site_urls
  | apps_accounts_urls
  | apps_books_urls
  | apps_circulations_urls
  | apps_fines_urls

text \<open>\<^verbatim>\<open>View c k\<close> is \<^verbatim>\<open>c.as_view(url_name=k)\<close>, with \<open>None\<close> for no keyword.\<close>

datatype target = View view_class "string option" | Include route_module

record url_entry =
  route :: string
  target :: target
  name :: "string option"

definition path :: "string \<Rightarrow> target \<Rightarrow> string option \<Rightarrow> url_entry" where
  "path r t n = \<lparr>route = r, target = t, name = n\<rparr>"

definition urlpatterns :: "url_entry list" where
  "urlpatterns =
    [ path ''admin/'' (Include admin_site_urls) None,
      path ''api/schema/'' (View SpectacularAPIView None) (Some ''schema''),
      path '''' (View SpectacularSwaggerView (Some ''schema'')) (Some ''swagger-ui''),
      path ''api/redoc/'' (View SpectacularRedocView (Some ''schema'')) (Some ''redoc''),
      path ''api/auth/'' (Include apps_accounts_urls) None,
      path ''api/books/'' (Include apps_books_urls) None,
      path ''api/circulations/'' (Include apps_circulations_urls) None,
      path ''api/fines/'' (Include apps_fines_urls) None ]"

subsection \<open>How the framework resolves a request path against the table\<close>

text \<open>
  None of the routes of the table has a converter (\<^verbatim>\<open><int:pk>\<close>), so a route is matched
  as plain text. \<open>strip_prefix r p\<close> is \<^verbatim>\<open>p[len(r):] if p.startswith(r)\<close>.
\<close>

fun strip_prefix :: "string \<Rightarrow> string \<Rightarrow> string option" where
  "strip_prefix [] p = Some p"
| "strip_prefix (c # r) [] = None"
| "strip_prefix (c # r) (d # p) = (if c = d then strip_prefix r p else None)"

text \<open>
  A view entry is an endpoint: its route has to match the whole remaining path. An include
  matches a prefix and hands the rest of the path to the included module.
\<close>

definition route_match :: "url_entry \<Rightarrow> string \<Rightarrow> string option" where
  "route_match e p =
     (case target e of
        View c k \<Rightarrow> (if p = route e then Some [] else None)
      | Include m \<Rightarrow> strip_prefix (route e) p)"

text \<open>
  The outcome of resolution: a view of the table itself, or a handler \<open>h\<close> found by an
  included module.
\<close>

datatype 'h resolved = ToView view_class "string option" | ToModule route_module 'h

text \<open>
  The included route modules are not part of the two source files. They are the parameter
  \<open>sub\<close>: \<open>sub m rest\<close> is what module \<open>m\<close> resolves the remaining path \<open>rest\<close> to, \<open>None\<close>
  when it has no route for it. The table is tried in order; an include whose module has no
  route for the rest lets the search go on with the next entry; \<open>None\<close> at the end is the
  404 answer.
\<close>

fun resolve :: "(route_module \<Rightarrow> string \<Rightarrow> 'h option) \<Rightarrow> url_entry list \<Rightarrow> string
    \<Rightarrow> 'h resolved option" where
  "resolve sub [] p = None"
| "resolve sub (e # es) p =
     (case route_match e p of
        None \<Rightarrow> resolve sub es p
      | Some rest \<Rightarrow>
          (case target e of
             View c k \<Rightarrow> Some (ToView c k)
           | Include m \<Rightarrow>
               (case sub m rest of
                  Some h \<Rightarrow> Some (ToModule m h)
                | None \<Rightarrow> resolve sub es p)))"

text \<open>The request path as the table sees it has lost its leading slash.\<close>

definition dispatch_url :: "(route_module \<Rightarrow> string \<Rightarrow> 'h option) \<Rightarrow> string \<Rightarrow> 'h resolved option" where
  "dispatch_url sub p = resolve sub urlpatterns p"

section \<open>The account views (apps/accounts/views.py)\<close>

text \<open>
  The source declares three view classes. Each one takes its behaviour from a generic view
  of the REST framework and sets a few attributes; \<^verbatim>\<open>UserProfileView\<close> also overrides
  \<^verbatim>\<open>get_object\<close>. What the generic views do with these attributes is written out below,
  following the framework's request pipeline: authenticate, check permissions, pick the
  handler of the request method, run it, turn a raised exception into an error response.
\<close>

subsection \<open>Users, requests and responses\<close>

datatype http_method = GET | POST | PUT | PATCH | DELETE | HEAD | OPTIONS | TRACE

text \<open>
  A user record is a row of the user table: a primary key and the values of the other
  fields, whose shape \<open>'f\<close> the source leaves to the user model. The table keeps the rows
  in insertion order.
\<close>

record 'f user =
  pk :: nat
  field_values :: 'f

type_synonym 'f user_table = "(nat \<times> 'f) list"

text \<open>\<^verbatim>\<open>request.user\<close> is a user record, or the anonymous user.\<close>

datatype 'f principal = AnonymousUser | User "'f user"

text \<open>The request as it arrives: method, credentials header, payload of shape \<open>'d\<close>.\<close>

record 'd http_request =
  request_method :: http_method
  authorization :: "string option"
  data :: 'd

text \<open>The request the view works on: the same, with \<^verbatim>\<open>request.user\<close> filled in.\<close>

record ('f, 'd) request =
  http :: "'d http_request"
  user :: "'f principal"

datatype api_exception =
    NotAuthenticated
  | AuthenticationFailed
  | PermissionDenied
  | MethodNotAllowed
  | ValidationError
  | ServerError

fun status_code :: "api_exception \<Rightarrow> nat" where
  "status_code NotAuthenticated = 401"
| "status_code AuthenticationFailed = 401"
| "status_code PermissionDenied = 403"
| "status_code MethodNotAllowed = 405"
| "status_code ValidationError = 400"
| "status_code ServerError = 500"

datatype 'd body = Data 'd | TokenPair string string | Detail api_exception | Metadata

record 'd response =
  status :: nat
  body :: "'d body"

subsection \<open>What the source imports but does not define\<close>

text \<open>
  An authenticator either finds no credentials it understands (\<^verbatim>\<open>authenticate\<close> returns
  \<^verbatim>\<open>None\<close>), or rejects the credentials (it raises \<^verbatim>\<open>AuthenticationFailed\<close>), or returns the
  user they belong to.
\<close>

datatype 'f auth_outcome = NoCredentials | Rejected | Authenticated "'f user"

datatype token_outcome = InvalidPayload | NoActiveAccount | Pair string string

text \<open>
  The parameters of the model. \<open>jwt_validate\<close> is the token check of the JWT library
  (signature, expiry, loading the user). \<open>to_representation\<close>, \<open>run_validation\<close>,
  \<open>create_fields\<close> and \<open>update_fields\<close> are the conversions of \<^verbatim>\<open>UserSerializer\<close>;
  \<open>run_validation db instance partial d\<close> is \<open>None\<close> when the payload \<open>d\<close> is invalid.
  \<open>next_pk db\<close> is the key that the database gives to a row added to the table \<open>db\<close>. The
  database draws it from a sequence of its own, which is not part of the table: a key is
  issued once, and is not issued again when its row has been deleted.
  \<open>obtain_pair\<close> is the JWT library's check of a login payload: \<open>Pair refresh access\<close> when
  the payload names an active account with its password.
\<close>

record ('f, 'd) backend =
  jwt_validate :: "'f user_table \<Rightarrow> string \<Rightarrow> 'f auth_outcome"
  to_representation :: "'f user \<Rightarrow> 'd"
  run_validation :: "'f user_table \<Rightarrow> 'f user option \<Rightarrow> bool \<Rightarrow> 'd \<Rightarrow> 'd option"
  create_fields :: "'d \<Rightarrow> 'f"
  update_fields :: "'f \<Rightarrow> 'd \<Rightarrow> 'f"
  next_pk :: "'f user_table \<Rightarrow> nat"
  obtain_pair :: "'f user_table \<Rightarrow> 'd \<Rightarrow> token_outcome"

record ('f, 'd) authenticator =
  authenticate :: "'f user_table \<Rightarrow> 'd http_request \<Rightarrow> 'f auth_outcome"
  authenticate_header :: "string option"

text \<open>
  JWT authentication: a request without the credentials header is not authenticated by it;
  otherwise the header is validated. Its challenge header makes an authentication failure a
  401 answer.
\<close>

definition JWTAuthentication :: "('f, 'd) backend \<Rightarrow> ('f, 'd) authenticator" where
  \<open>JWTAuthentication B =
     \<lparr> authenticate = (\<lambda>db h. case authorization h of
                                None \<Rightarrow> NoCredentials
                              | Some t \<Rightarrow> jwt_validate B db t),
       authenticate_header = Some ''Bearer realm="api"'' \<rparr>\<close>

text \<open>
  Modelled from the spec: the project settings (config/settings.py) are not among the source
  files, and the views that do not set \<^verbatim>\<open>authentication_classes\<close> take the settings'
  default. The spec has login "via JWT" and a 401 answer to unauthenticated profile access,
  so the default is JWT authentication.
\<close>

definition DEFAULT_AUTHENTICATION_CLASSES :: "('f, 'd) backend \<Rightarrow> ('f, 'd) authenticator list" where
  "DEFAULT_AUTHENTICATION_CLASSES B = [JWTAuthentication B]"

subsection \<open>The user table\<close>

text \<open>Saving a record that has a key rewrites the row of that key, or adds the row.\<close>

fun save_row :: "'f user_table \<Rightarrow> nat \<Rightarrow> 'f \<Rightarrow> 'f user_table" where
  "save_row [] k f = [(k, f)]"
| "save_row (r # rows) k f = (if fst r = k then (k, f) # rows else r # save_row rows k f)"

text \<open>
  Modelled from the spec: \<^verbatim>\<open>UserSerializer\<close> (apps/accounts/serializers.py) is not among the
  source files. The spec says that it converts a user to and from a data representation,
  and that registration creates a user. Creating builds one new row from the validated
  payload, under the key that the database issues; updating sets the fields of the record it is given from the validated payload
  and saves that record.
\<close>

definition serializer_create :: "('f, 'd) backend \<Rightarrow> 'f user_table \<Rightarrow> 'd \<Rightarrow> 'f user \<times> 'f user_table" where
  "serializer_create B db v =
     (let u = \<lparr>pk = next_pk B db, field_values = create_fields B v\<rparr>
      in (u, db @ [(pk u, field_values u)]))"

definition serializer_update :: "('f, 'd) backend \<Rightarrow> 'f user_table \<Rightarrow> 'f user \<Rightarrow> 'd \<Rightarrow> 'f user \<times> 'f user_table" where
  "serializer_update B db instance v =
     (let u = instance\<lparr>field_values := update_fields B (field_values instance) v\<rparr>
      in (u, save_row db (pk u) (field_values u)))"

subsection \<open>The three views\<close>

text \<open>
  Each class of the source is a constructor of \<open>view\<close>; \<open>base\<close> is the generic view it
  extends and \<open>permission_classes\<close> the attribute it sets. \<^verbatim>\<open>serializer_class = UserSerializer\<close>
  of the registration and the profile view is why their handlers use the conversions of
  \<^verbatim>\<open>UserSerializer\<close>; the \<^verbatim>\<open>queryset\<close> of the registration view is not read when a user is
  created, and the \<^verbatim>\<open>extend_schema\<close> decorator only tags the generated documentation.
\<close>

datatype view = UserRegistrationView | UserLoginView | UserProfileView

datatype generic_view = CreateAPIView | TokenObtainPairView | RetrieveUpdateAPIView

fun base :: "view \<Rightarrow> generic_view" where
  "base UserRegistrationView = CreateAPIView"
| "base UserLoginView = TokenObtainPairView"
| "base UserProfileView = RetrieveUpdateAPIView"

datatype permission = AllowAny | IsAuthenticated

fun permission_classes :: "view \<Rightarrow> permission list" where
  "permission_classes UserRegistrationView = [AllowAny]"
| "permission_classes UserLoginView = [AllowAny]"
| "permission_classes UserProfileView = [IsAuthenticated]"

text \<open>
  None of the three classes sets \<^verbatim>\<open>authentication_classes\<close>. The token view of the JWT
  library sets it to the empty tuple; the other two generic views leave the default.
\<close>

fun get_authenticators :: "('f, 'd) backend \<Rightarrow> generic_view \<Rightarrow> ('f, 'd) authenticator list" where
  "get_authenticators B TokenObtainPairView = []"
| "get_authenticators B CreateAPIView = DEFAULT_AUTHENTICATION_CLASSES B"
| "get_authenticators B RetrieveUpdateAPIView = DEFAULT_AUTHENTICATION_CLASSES B"

text \<open>\<^verbatim>\<open>UserProfileView.get_object\<close>: \<^verbatim>\<open>return self.request.user\<close>.\<close>

definition get_object :: "('f, 'd) request \<Rightarrow> 'f principal" where
  "get_object request = user request"

subsection \<open>The request pipeline of the generic views\<close>

text \<open>
  The authenticators are tried in order. The first one that returns a user decides; one
  that rejects the credentials ends the request; when none returns a user the request
  belongs to the anonymous user.
\<close>

fun perform_authentication :: "('f, 'd) authenticator list \<Rightarrow> 'f user_table \<Rightarrow> 'd http_request
    \<Rightarrow> api_exception + 'f principal" where
  "perform_authentication [] db h = Inr AnonymousUser"
| "perform_authentication (a # as) db h =
     (case authenticate a db h of
        NoCredentials \<Rightarrow> perform_authentication as db h
      | Rejected \<Rightarrow> Inl AuthenticationFailed
      | Authenticated u \<Rightarrow> Inr (User u))"

fun has_permission :: "permission \<Rightarrow> ('f, 'd) request \<Rightarrow> bool" where
  "has_permission AllowAny request = True"
| "has_permission IsAuthenticated request =
     (case user request of AnonymousUser \<Rightarrow> False | User u \<Rightarrow> True)"

text \<open>
  A failed permission check raises \<^verbatim>\<open>NotAuthenticated\<close> when the view has authenticators and
  none of them authenticated the request, \<^verbatim>\<open>PermissionDenied\<close> otherwise.
\<close>

definition permission_denied :: "('f, 'd) authenticator list \<Rightarrow> ('f, 'd) request \<Rightarrow> api_exception" where
  "permission_denied auths request =
     (case user request of
        AnonymousUser \<Rightarrow> (case auths of [] \<Rightarrow> PermissionDenied | a # as \<Rightarrow> NotAuthenticated)
      | User u \<Rightarrow> PermissionDenied)"

fun check_permissions :: "permission list \<Rightarrow> ('f, 'd) authenticator list \<Rightarrow> ('f, 'd) request
    \<Rightarrow> api_exception option" where
  "check_permissions [] auths request = None"
| "check_permissions (p # ps) auths request =
     (if has_permission p request then check_permissions ps auths request
      else Some (permission_denied auths request))"

text \<open>What authentication makes of a request to view \<open>v\<close>: an exception, or \<^verbatim>\<open>request.user\<close>.\<close>

definition request_user :: "('f, 'd) backend \<Rightarrow> view \<Rightarrow> 'f user_table \<Rightarrow> 'd http_request
    \<Rightarrow> api_exception + 'f principal" where
  "request_user B v db h = perform_authentication (get_authenticators B (base v)) db h"

text \<open>\<^verbatim>\<open>initial\<close> runs before the handler is looked up: authentication, then permissions.\<close>

definition initial :: "('f, 'd) backend \<Rightarrow> view \<Rightarrow> 'f user_table \<Rightarrow> 'd http_request
    \<Rightarrow> api_exception + ('f, 'd) request" where
  "initial B v db h =
     (case request_user B v db h of
        Inl exc \<Rightarrow> Inl exc
      | Inr p \<Rightarrow>
          (let request = \<lparr>http = h, user = p\<rparr>
           in case check_permissions (permission_classes v) (get_authenticators B (base v)) request of
                Some exc \<Rightarrow> Inl exc
              | None \<Rightarrow> Inr request))"

text \<open>
  The challenge header of a view is that of its first authenticator; the token view of the
  JWT library always has one.
\<close>

fun get_authenticate_header :: "('f, 'd) backend \<Rightarrow> generic_view \<Rightarrow> string option" where
  \<open>get_authenticate_header B TokenObtainPairView = Some ''Bearer realm="api"''\<close>
| \<open>get_authenticate_header B g =
     (case get_authenticators B g of [] \<Rightarrow> None | a # as \<Rightarrow> authenticate_header a)\<close>

text \<open>
  An authentication error is answered 401 when the view has a challenge header, 403 when it
  has none; every other exception is answered with its own status code.
\<close>

definition handle_exception :: "('f, 'd) backend \<Rightarrow> view \<Rightarrow> api_exception \<Rightarrow> 'd response" where
  "handle_exception B v exc =
     (if exc = NotAuthenticated \<or> exc = AuthenticationFailed then
        (case get_authenticate_header B (base v) of
           Some challenge \<Rightarrow> \<lparr>status = status_code exc, body = Detail exc\<rparr>
         | None \<Rightarrow> \<lparr>status = 403, body = Detail exc\<rparr>)
      else \<lparr>status = status_code exc, body = Detail exc\<rparr>)"

subsection \<open>The handlers\<close>

type_synonym ('f, 'd) handler =
  "'f user_table \<Rightarrow> ('f, 'd) request \<Rightarrow> api_exception + ('d response \<times> 'f user_table)"

text \<open>\<^verbatim>\<open>CreateAPIView.post\<close>: validate the payload, save a new record, answer 201.\<close>

definition create :: "('f, 'd) backend \<Rightarrow> ('f, 'd) handler" where
  "create B db request =
     (case run_validation B db None False (data (http request)) of
        None \<Rightarrow> Inl ValidationError
      | Some v \<Rightarrow>
          (case serializer_create B db v of
             (u, db') \<Rightarrow> Inr (\<lparr>status = 201, body = Data (to_representation B u)\<rparr>, db')))"

text \<open>
  \<^verbatim>\<open>RetrieveUpdateAPIView.get\<close>: serialize the object that \<^verbatim>\<open>get_object\<close> returns. The
  anonymous user is not a user record and cannot be serialized.
\<close>

definition retrieve :: "('f, 'd) backend \<Rightarrow> ('f, 'd) handler" where
  "retrieve B db request =
     (case get_object request of
        AnonymousUser \<Rightarrow> Inl ServerError
      | User instance \<Rightarrow> Inr (\<lparr>status = 200, body = Data (to_representation B instance)\<rparr>, db))"

text \<open>
  \<^verbatim>\<open>RetrieveUpdateAPIView.put\<close> and \<^verbatim>\<open>patch\<close> (\<open>partial\<close>): validate the payload against the
  object that \<^verbatim>\<open>get_object\<close> returns, save it, answer with its new representation.
\<close>

definition update :: "('f, 'd) backend \<Rightarrow> bool \<Rightarrow> ('f, 'd) handler" where
  "update B partial db request =
     (case get_object request of
        AnonymousUser \<Rightarrow> Inl ServerError
      | User instance \<Rightarrow>
          (case run_validation B db (Some instance) partial (data (http request)) of
             None \<Rightarrow> Inl ValidationError
           | Some v \<Rightarrow>
               (case serializer_update B db instance v of
                  (u, db') \<Rightarrow> Inr (\<lparr>status = 200, body = Data (to_representation B u)\<rparr>, db'))))"

text \<open>\<^verbatim>\<open>TokenObtainPairView.post\<close>: check the login payload, answer with the token pair.\<close>

definition token_post :: "('f, 'd) backend \<Rightarrow> ('f, 'd) handler" where
  "token_post B db request =
     (case obtain_pair B db (data (http request)) of
        InvalidPayload \<Rightarrow> Inl ValidationError
      | NoActiveAccount \<Rightarrow> Inl AuthenticationFailed
      | Pair refresh access \<Rightarrow> Inr (\<lparr>status = 200, body = TokenPair refresh access\<rparr>, db))"

definition options :: "('f, 'd) handler" where
  "options db request = Inr (\<lparr>status = 200, body = Metadata\<rparr>, db)"

text \<open>
  The handler of a request method is the method of that name that the generic view
  defines; \<^verbatim>\<open>head\<close> is \<^verbatim>\<open>get\<close> where there is a \<^verbatim>\<open>get\<close>, and every view answers
  \<^verbatim>\<open>OPTIONS\<close>. No handler means method-not-allowed.
\<close>

fun handler :: "('f, 'd) backend \<Rightarrow> generic_view \<Rightarrow> http_method \<Rightarrow> ('f, 'd) handler option" where
  "handler B CreateAPIView POST = Some (create B)"
| "handler B TokenObtainPairView POST = Some (token_post B)"
| "handler B RetrieveUpdateAPIView GET = Some (retrieve B)"
| "handler B RetrieveUpdateAPIView HEAD = Some (retrieve B)"
| "handler B RetrieveUpdateAPIView PUT = Some (update B False)"
| "handler B RetrieveUpdateAPIView PATCH = Some (update B True)"
| "handler B g OPTIONS = Some options"
| "handler B g m = None"

definition dispatch :: "('f, 'd) backend \<Rightarrow> view \<Rightarrow> 'f user_table \<Rightarrow> 'd http_request
    \<Rightarrow> 'd response \<times> 'f user_table" where
  "dispatch B v db h =
     (case initial B v db h of
        Inl exc \<Rightarrow> (handle_exception B v exc, db)
      | Inr request \<Rightarrow>
          (case handler B (base v) (request_method h) of
             None \<Rightarrow> (handle_exception B v MethodNotAllowed, db)
           | Some run \<Rightarrow>
               (case run db request of
                  Inl exc \<Rightarrow> (handle_exception B v exc, db)
                | Inr result \<Rightarrow> result)))"

subsection \<open>A small instance to run the views on\<close>

text \<open>
  Users are their names, payloads are strings. The token \<^verbatim>\<open>Bearer alice\<close> is the only valid
  one and belongs to the user with key 1; an empty payload is invalid. The database has
  issued the keys 1 to 3, the user with key 3 has been deleted, and the next key is 4.
\<close>

definition example_backend :: "(string, string) backend" where
  "example_backend =
     \<lparr> jwt_validate = (\<lambda>db t. if t = ''Bearer alice''
                               then (case map_of db 1 of
                                       Some f \<Rightarrow> Authenticated \<lparr>pk = 1, field_values = f\<rparr>
                                     | None \<Rightarrow> Rejected)
                               else Rejected),
       to_representation = (\<lambda>u. field_values u),
       run_validation = (\<lambda>db instance partial d. if d = [] then None else Some d),
       create_fields = (\<lambda>d. d),
       update_fields = (\<lambda>f d. d),
       next_pk = (\<lambda>db. 4),
       obtain_pair = (\<lambda>db d. if d = ''alice:secret'' then Pair ''r1'' ''a1'' else NoActiveAccount) \<rparr>"

definition example_table :: "string user_table" where
  "example_table = [(1, ''alice''), (2, ''bob'')]"

section \<open>Properties of the URL dispatch table\<close>

lemma strip_prefix_append: "strip_prefix r (r @ rest) = Some rest"
  by (induction r) simp_all

text \<open>
  Claim C6. A request path that begins with \<^verbatim>\<open>api/auth/\<close>, \<^verbatim>\<open>api/books/\<close>,
  \<^verbatim>\<open>api/circulations/\<close> or \<^verbatim>\<open>api/fines/\<close> is handed, with the prefix removed, to the
  included route module of the corresponding app, and to nothing else: the answer of the
  table is exactly the answer of that module, a handler of the module or no match at all.
\<close>

theorem api_prefixes_route_to_their_module:
  "dispatch_url sub (''api/auth/'' @ rest)
     = map_option (ToModule apps_accounts_urls) (sub apps_accounts_urls rest)
   \<and> dispatch_url sub (''api/books/'' @ rest)
     = map_option (ToModule apps_books_urls) (sub apps_books_urls rest)
   \<and> dispatch_url sub (''api/circulations/'' @ rest)
     = map_option (ToModule apps_circulations_urls) (sub apps_circulations_urls rest)
   \<and> dispatch_url sub (''api/fines/'' @ rest)
     = map_option (ToModule apps_fines_urls) (sub apps_fines_urls rest)"
  by (simp add: dispatch_url_def urlpatterns_def path_def route_match_def split: option.split)

text \<open>
  Claim C7. The table maps the path \<^verbatim>\<open>api/schema/\<close> to the OpenAPI schema view, the root
  path (the empty route) to the Swagger UI view, and \<^verbatim>\<open>api/redoc/\<close> to the Redoc UI view;
  both UI views are configured with the schema route's name. The table does not look at the
  request method, so this holds for GET as for any other method.
\<close>

theorem documentation_routes:
  "dispatch_url sub ''api/schema/'' = Some (ToView SpectacularAPIView None)
   \<and> dispatch_url sub '''' = Some (ToView SpectacularSwaggerView (Some ''schema''))
   \<and> dispatch_url sub ''api/redoc/'' = Some (ToView SpectacularRedocView (Some ''schema''))"
  by (simp add: dispatch_url_def urlpatterns_def path_def route_match_def)

text \<open>
  Claim C10. Besides the API routes, the table exposes the prefix \<^verbatim>\<open>admin/\<close>: it is the
  first entry of the table, and every path that begins with it is handed to the admin
  site's routes.
\<close>

theorem admin_prefix_routes_to_admin_site:
  "hd urlpatterns = path ''admin/'' (Include admin_site_urls) None
   \<and> dispatch_url sub (''admin/'' @ rest)
     = map_option (ToModule admin_site_urls) (sub admin_site_urls rest)"
  by (simp add: dispatch_url_def urlpatterns_def path_def route_match_def split: option.split)

section \<open>Properties of the account views\<close>

lemmas pipeline_defs = dispatch_def initial_def request_user_def handle_exception_def
  permission_denied_def DEFAULT_AUTHENTICATION_CLASSES_def JWTAuthentication_def get_object_def

lemmas example_defs = example_backend_def example_table_def

lemma filter_save_row:
  "filter (\<lambda>r. fst r \<noteq> k) (save_row db k f) = filter (\<lambda>r. fst r \<noteq> k) db"
  by (induction db) auto

text \<open>
  The profile view never meets the anonymous user in a handler: it never answers 500.
\<close>

lemma profile_never_server_error:
  "status (fst (dispatch B UserProfileView db h)) \<noteq> 500"
  by (cases "request_method h")
     (auto simp: pipeline_defs retrieve_def update_def serializer_update_def options_def
           split: option.splits auth_outcome.splits)

text \<open>
  Claim C1. When a request to the profile endpoint is authenticated as user \<open>u\<close>, the object
  the view works on is \<open>u\<close>: GET answers 200 with the representation of \<open>u\<close> and changes
  nothing; PUT and PATCH validate the payload against \<open>u\<close>, and on a valid payload save the
  updated fields into the row with the key of \<open>u\<close> and answer with the representation of the
  updated \<open>u\<close> (on an invalid payload they answer 400 and change nothing).
\<close>

theorem profile_operates_on_requesting_user:
  assumes "request_user B UserProfileView db h = Inr (User u)"
  shows "get_object \<lparr>http = h, user = User u\<rparr> = User u
       \<and> (request_method h = GET \<longrightarrow>
            dispatch B UserProfileView db h
              = (\<lparr>status = 200, body = Data (to_representation B u)\<rparr>, db))
       \<and> (request_method h = PUT \<or> request_method h = PATCH \<longrightarrow>
            dispatch B UserProfileView db h
              = (case run_validation B db (Some u) (request_method h = PATCH) (data h) of
                   None \<Rightarrow> (\<lparr>status = 400, body = Detail ValidationError\<rparr>, db)
                 | Some v \<Rightarrow>
                     (\<lparr>status = 200,
                       body = Data (to_representation B
                                (u\<lparr>field_values := update_fields B (field_values u) v\<rparr>))\<rparr>,
                      save_row db (pk u) (update_fields B (field_values u) v))))"
  using assms
  by (auto simp: pipeline_defs retrieve_def update_def serializer_update_def
           split: option.splits auth_outcome.splits)

theorem profile_operates_on_requesting_user_witness:
  "dispatch example_backend UserProfileView example_table
       \<lparr>request_method = GET, authorization = Some ''Bearer alice'', data = []\<rparr>
     = (\<lparr>status = 200, body = Data ''alice''\<rparr>, example_table)
   \<and> dispatch example_backend UserProfileView example_table
       \<lparr>request_method = PATCH, authorization = Some ''Bearer alice'', data = ''alicia''\<rparr>
     = (\<lparr>status = 200, body = Data ''alicia''\<rparr>, [(1, ''alicia''), (2, ''bob'')])"
  using profile_operates_on_requesting_user [of example_backend example_table
              "\<lparr>request_method = GET, authorization = Some ''Bearer alice'', data = []\<rparr>"
              "\<lparr>pk = 1, field_values = ''alice''\<rparr>"]
        profile_operates_on_requesting_user [of example_backend example_table
              "\<lparr>request_method = PATCH, authorization = Some ''Bearer alice'', data = ''alicia''\<rparr>"
              "\<lparr>pk = 1, field_values = ''alice''\<rparr>"]
  by (simp add: example_defs request_user_def DEFAULT_AUTHENTICATION_CLASSES_def
        JWTAuthentication_def)

text \<open>
  Claim C2. A request to the profile endpoint that authentication does not attribute to a
  user, because it has no credentials or because its credentials are rejected, is answered
  401 with an error body, whatever its method, and the user table is left as it was.
\<close>

theorem profile_without_authentication_is_401:
  assumes "\<forall>u. request_user B UserProfileView db h \<noteq> Inr (User u)"
  shows "status (fst (dispatch B UserProfileView db h)) = 401
       \<and> (\<exists>exc. body (fst (dispatch B UserProfileView db h)) = Detail exc)
       \<and> snd (dispatch B UserProfileView db h) = db"
  using assms
  by (auto simp: pipeline_defs split: option.splits auth_outcome.splits)

theorem profile_without_authentication_is_401_witness:
  "status (fst (dispatch example_backend UserProfileView example_table
        \<lparr>request_method = PUT, authorization = Some ''Bearer mallory'', data = ''x''\<rparr>)) = 401
   \<and> snd (dispatch example_backend UserProfileView example_table
        \<lparr>request_method = PUT, authorization = Some ''Bearer mallory'', data = ''x''\<rparr>) = example_table
   \<and> status (fst (dispatch example_backend UserProfileView example_table
        \<lparr>request_method = GET, authorization = None, data = []\<rparr>)) = 401"
  using profile_without_authentication_is_401 [of example_backend example_table
              "\<lparr>request_method = PUT, authorization = Some ''Bearer mallory'', data = ''x''\<rparr>"]
        profile_without_authentication_is_401 [of example_backend example_table
              "\<lparr>request_method = GET, authorization = None, data = []\<rparr>"]
  by (simp add: example_defs request_user_def DEFAULT_AUTHENTICATION_CLASSES_def
        JWTAuthentication_def)




text \<open>
  Claim C4. Every POST request to the login endpoint reaches the token handler, whatever
  credentials header it has or lacks: the answer depends on the login payload only. A
  payload that names an active account is answered 200 with the token pair; a malformed
  payload is answered 400 and a payload that names no active account 401. The user table is
  never changed.
\<close>

theorem login_open_and_returns_token_pair:
  assumes "request_method h = POST"
  shows "dispatch B UserLoginView db h
           = (case obtain_pair B db (data h) of
                InvalidPayload \<Rightarrow> (\<lparr>status = 400, body = Detail ValidationError\<rparr>, db)
              | NoActiveAccount \<Rightarrow> (\<lparr>status = 401, body = Detail AuthenticationFailed\<rparr>, db)
              | Pair refresh access \<Rightarrow> (\<lparr>status = 200, body = TokenPair refresh access\<rparr>, db))"
  using assms
  by (auto simp: pipeline_defs token_post_def split: token_outcome.splits)

theorem login_open_and_returns_token_pair_witness:
  "dispatch example_backend UserLoginView example_table
       \<lparr>request_method = POST, authorization = Some ''Bearer mallory'', data = ''alice:secret''\<rparr>
     = (\<lparr>status = 200, body = TokenPair ''r1'' ''a1''\<rparr>, example_table)"
  using login_open_and_returns_token_pair
          [of "\<lparr>request_method = POST, authorization = Some ''Bearer mallory'', data = ''alice:secret''\<rparr>"
              example_backend example_table]
  by (simp add: example_defs)

text \<open>
  Claim C5, as stated, fails: a POST request to the registration endpoint with a valid
  payload and a credentials header that the authenticator rejects is answered 401, and no
  user is created. Authentication runs before the permission check, on open views too.
\<close>

theorem registration_rejected_credentials_counterexample:
  "request_method \<lparr>request_method = POST, authorization = Some ''Bearer mallory'', data = ''carol''\<rparr> = POST
   \<and> run_validation example_backend example_table None False
        (data \<lparr>request_method = POST, authorization = Some ''Bearer mallory'', data = ''carol''\<rparr>)
       = Some ''carol''
   \<and> dispatch example_backend UserRegistrationView example_table
        \<lparr>request_method = POST, authorization = Some ''Bearer mallory'', data = ''carol''\<rparr>
       = (\<lparr>status = 401, body = Detail AuthenticationFailed\<rparr>, example_table)
   \<and> status (fst (dispatch example_backend UserRegistrationView example_table
        \<lparr>request_method = POST, authorization = Some ''Bearer mallory'', data = ''carol''\<rparr>)) \<noteq> 201"
  by (simp add: example_defs pipeline_defs)

text \<open>
  Claim C5, amended. A POST request to the registration endpoint whose payload is valid and
  whose authentication raises nothing (it has no credentials, or credentials that the
  authenticator accepts) is answered 201.
\<close>

theorem registration_valid_payload_is_201:
  assumes "request_method h = POST"
    and "run_validation B db None False (data h) = Some v"
    and "request_user B UserRegistrationView db h = Inr p"
  shows "status (fst (dispatch B UserRegistrationView db h)) = 201"
  using assms
  by (auto simp: pipeline_defs create_def serializer_create_def
           split: option.splits auth_outcome.splits)

theorem registration_valid_payload_is_201_witness:
  "status (fst (dispatch example_backend UserRegistrationView example_table
       \<lparr>request_method = POST, authorization = Some ''Bearer alice'', data = ''carol''\<rparr>)) = 201
   \<and> status (fst (dispatch example_backend UserRegistrationView example_table
       \<lparr>request_method = POST, authorization = None, data = ''carol''\<rparr>)) = 201"
  using registration_valid_payload_is_201
          [of "\<lparr>request_method = POST, authorization = Some ''Bearer alice'', data = ''carol''\<rparr>"
              example_backend example_table "''carol''" "User \<lparr>pk = 1, field_values = ''alice''\<rparr>"]
        registration_valid_payload_is_201
          [of "\<lparr>request_method = POST, authorization = None, data = ''carol''\<rparr>"
              example_backend example_table "''carol''" AnonymousUser]
  by (simp add: example_defs request_user_def DEFAULT_AUTHENTICATION_CLASSES_def
        JWTAuthentication_def)

text \<open>
  Claim C8. A PUT or PATCH request to the profile endpoint that is authenticated as user \<open>u\<close>
  leaves every row of the user table whose key is not the key of \<open>u\<close> as it was, whether the
  update goes through or not.
\<close>

theorem profile_update_leaves_other_users:
  assumes "request_user B UserProfileView db h = Inr (User u)"
    and "request_method h = PUT \<or> request_method h = PATCH"
  shows "filter (\<lambda>r. fst r \<noteq> pk u) (snd (dispatch B UserProfileView db h))
           = filter (\<lambda>r. fst r \<noteq> pk u) db"
  using assms
  by (auto simp: pipeline_defs update_def serializer_update_def filter_save_row
           split: option.splits auth_outcome.splits)

theorem profile_update_leaves_other_users_witness:
  "filter (\<lambda>r. fst r \<noteq> 1)
     (snd (dispatch example_backend UserProfileView example_table
        \<lparr>request_method = PUT, authorization = Some ''Bearer alice'', data = ''alicia''\<rparr>))
     = [(2, ''bob'')]"
  using profile_update_leaves_other_users [of example_backend example_table
              "\<lparr>request_method = PUT, authorization = Some ''Bearer alice'', data = ''alicia''\<rparr>"
              "\<lparr>pk = 1, field_values = ''alice''\<rparr>"]
  by (simp add: example_defs request_user_def DEFAULT_AUTHENTICATION_CLASSES_def
        JWTAuthentication_def)

text \<open>
  Claim C9, as stated, fails: a DELETE request to the profile endpoint without credentials
  is not rejected as method-not-allowed. The permission check runs before the handler of
  the method is looked up, so the answer is 401.
\<close>

theorem profile_delete_unauthenticated_counterexample:
  "request_method \<lparr>request_method = DELETE, authorization = None, data = []\<rparr> = DELETE
   \<and> dispatch example_backend UserProfileView example_table
        \<lparr>request_method = DELETE, authorization = None, data = []\<rparr>
       = (\<lparr>status = 401, body = Detail NotAuthenticated\<rparr>, example_table)
   \<and> status (fst (dispatch example_backend UserProfileView example_table
        \<lparr>request_method = DELETE, authorization = None, data = []\<rparr>)) \<noteq> status_code MethodNotAllowed"
  by (simp add: example_defs pipeline_defs)

text \<open>
  Claim C9, amended. The profile view has no handler for DELETE, and every DELETE request to
  the profile endpoint is rejected with the user table left as it was: as
  method-not-allowed (405) when the request is authenticated as a user, with 401 when it is
  not.
\<close>

theorem profile_delete_is_rejected:
  assumes "request_method h = DELETE"
  shows "handler B (base UserProfileView) DELETE = None
       \<and> snd (dispatch B UserProfileView db h) = db
       \<and> status (fst (dispatch B UserProfileView db h))
           = (case request_user B UserProfileView db h of
                Inr (User u) \<Rightarrow> 405
              | Inr AnonymousUser \<Rightarrow> 401
              | Inl exc \<Rightarrow> 401)"
  using assms
  by (auto simp: pipeline_defs split: option.splits auth_outcome.splits)

theorem profile_delete_is_rejected_witness:
  "dispatch example_backend UserProfileView example_table
        \<lparr>request_method = DELETE, authorization = Some ''Bearer alice'', data = []\<rparr>
     = (\<lparr>status = 405, body = Detail MethodNotAllowed\<rparr>, example_table)"
  using profile_delete_is_rejected
          [of "\<lparr>request_method = DELETE, authorization = Some ''Bearer alice'', data = []\<rparr>"
              example_backend example_table]
  by (simp add: example_defs pipeline_defs)

end
